theory Spec2Isabelle
  imports Complex_Main
begin

section \<open>Python values and errors\<close>

text \<open>
  The exceptions the modelled code can raise.  \<open>ValueError\<close> is what
  \<^verbatim>\<open>intervals\<close> raises on a malformed range (the specification calls it
  InvalidRangeError); \<open>ZeroDivisionError\<close> is raised by Python's true division
  \<^verbatim>\<open>/\<close> on a zero divisor; \<open>TypeError\<close> is raised by an ordering comparison
  with \<^verbatim>\<open>None\<close>.
\<close>

datatype error = ValueError | ZeroDivisionError | TypeError

text \<open>
  Python's \<^verbatim>\<open>int(x)\<close> on a number truncates towards zero.  Python floats are
  modelled as exact real numbers: rounding is not part of the model.
\<close>

definition py_int :: "real \<Rightarrow> int" where
  "py_int x = (if 0 \<le> x then \<lfloor>x\<rfloor> else \<lceil>x\<rceil>)"

section \<open>utils.intervals\<close>

text \<open>
  \<^verbatim>\<open>
  def intervals(start, end, n):
      if start > end:
          raise ValueError("start must be smaller or equal to end!")
      r = start
      while True:
          r += n
          if r > end + n:
              break
          yield (int(r - n), int(min(r - 1, end)))
  \<close>
  The loop is \<open>intervals_loop\<close>, entered with the value of \<open>r\<close> before the
  increment.  It need not terminate (with \<open>n \<le> 0\<close> it never leaves), so it is a
  partial function: \<open>None\<close> stands for a run that never returns.
  \<open>intervals\<close> is the generator consumed to the end, as \<^verbatim>\<open>list(intervals(...))\<close>
  does in the session.
\<close>

partial_function (option) intervals_loop :: "real \<Rightarrow> real \<Rightarrow> real \<Rightarrow> (int \<times> int) list option" where
  [code]: "intervals_loop r endv n =
     (if r + n > endv + n then Some []
      else Option.bind (intervals_loop (r + n) endv n)
             (\<lambda>rest. Some ((py_int (r + n - n), py_int (min (r + n - 1) endv)) # rest)))"

definition intervals :: "int \<Rightarrow> int \<Rightarrow> real \<Rightarrow> (error + (int \<times> int) list) option" where
  "intervals start endv n =
     (if start > endv then Some (Inl ValueError)
      else map_option Inr (intervals_loop (of_int start) (of_int endv) n))"

section \<open>Tables, statements and aggregate queries\<close>

text \<open>
  A row of the replicated table: its primary key, the watermark column
  \<^verbatim>\<open>updated\<close>, and \<open>payload\<close> for the remaining columns, none of them part of
  the key.  A table is the list of its rows.  Watermarks are integers, as
  \<^verbatim>\<open>max_updated = int(time.time() * 1000)\<close> is.
\<close>

record row =
  pk :: int
  updated :: int
  payload :: string

type_synonym table = "row list"

text \<open>
  \<^verbatim>\<open>select([func.max(c)])\<close> and \<^verbatim>\<open>select([func.min(c)])\<close> followed by
  \<^verbatim>\<open>.scalar()\<close>: the aggregate of a column, \<^verbatim>\<open>None\<close> for a table without
  rows.
\<close>

fun func_max :: "int list \<Rightarrow> int option" where
  "func_max [] = None"
| "func_max (x # xs) = Some (fold max xs x)"

fun func_min :: "int list \<Rightarrow> int option" where
  "func_min [] = None"
| "func_min (x # xs) = Some (fold min xs x)"

text \<open>
  The conditions the session builds over the watermark column:
  \<^verbatim>\<open>column >= v\<close>, \<^verbatim>\<open>column <= v\<close>, \<^verbatim>\<open>column < v\<close> and \<^verbatim>\<open>and_(a, b)\<close>.
  A select statement over the source table is the list of its \<^verbatim>\<open>where\<close>
  clauses, all of which a selected row satisfies; \<open>execute\<close> runs it ordered by
  \<^verbatim>\<open>asc(updated)\<close> and fetches all rows.
\<close>

datatype expr = Ge int | Le int | Lt int | And expr expr

fun holds :: "expr \<Rightarrow> int \<Rightarrow> bool" where
  "holds (Ge v) c = (c \<ge> v)"
| "holds (Le v) c = (c \<le> v)"
| "holds (Lt v) c = (c < v)"
| "holds (And a b) c = (holds a c \<and> holds b c)"

type_synonym select_stmt = "expr list"

definition selects :: "select_stmt \<Rightarrow> row \<Rightarrow> bool" where
  "selects stmt r = list_all (\<lambda>e. holds e (updated r)) stmt"

definition execute :: "table \<Rightarrow> select_stmt \<Rightarrow> row list" where
  "execute conn stmt = sort_key updated (filter (selects stmt) conn)"

section \<open>Session: watermark resolution\<close>

text \<open>
  \<^verbatim>\<open>
  def _get_starting_point(self):
      with self.connect() as (src, dst):
          stmt = select([func.max(self.dst_table.c.updated)])
          min = dst.execute(stmt).scalar()
          if not min:
              stmt = select([func.min(self.src_table.c.updated)])
              min = src.execute(stmt).scalar()
          return min
  \<close>
  \<open>py_not\<close> is Python's \<^verbatim>\<open>not\<close> on such a scalar: \<^verbatim>\<open>None\<close> and \<^verbatim>\<open>0\<close> are
  both false values.
\<close>

definition py_not :: "int option \<Rightarrow> bool" where
  "py_not v = (case v of None \<Rightarrow> True | Some x \<Rightarrow> x = 0)"

definition get_starting_point :: "table \<Rightarrow> table \<Rightarrow> int option" where
  "get_starting_point src dst =
     (let mn = func_max (map updated dst)
      in if py_not mn then func_min (map updated src) else mn)"

section \<open>Session: the connection context manager\<close>

text \<open>
  \<^verbatim>\<open>
  @contextmanager
  def connect(self):
      conn = self.src_engine.connect(), self.dst_engine.connect()
      try:
          yield conn
      finally:
          # close both connections
          (c.close() for c in conn)
  \<close>
  Each engine keeps the status of the connections it has handed out; a
  connection is its index.  The body of the \<^verbatim>\<open>with\<close> statement gets both
  handles and returns a value or raises.

  A generator expression evaluates to a generator object: the calls in its
  body run when it is iterated (\<open>exhaust\<close>), one per item.  An expression
  statement (\<open>expr_stmt\<close>) evaluates its expression and drops the value, which
  for a generator object iterates nothing.
\<close>

datatype conn_status = Open | Closed

record engines =
  src_conns :: "conn_status list"
  dst_conns :: "conn_status list"

datatype conn = SrcConn nat | DstConn nat

fun close :: "conn \<Rightarrow> engines \<Rightarrow> engines" where
  "close (SrcConn i) s = s\<lparr>src_conns := (src_conns s)[i := Closed]\<rparr>"
| "close (DstConn j) s = s\<lparr>dst_conns := (dst_conns s)[j := Closed]\<rparr>"

fun is_open :: "conn \<Rightarrow> engines \<Rightarrow> bool" where
  "is_open (SrcConn i) s = (i < length (src_conns s) \<and> src_conns s ! i = Open)"
| "is_open (DstConn j) s = (j < length (dst_conns s) \<and> dst_conns s ! j = Open)"

datatype 's generator = Generator "('s \<Rightarrow> 's) list"

definition genexpr :: "('c \<Rightarrow> 's \<Rightarrow> 's) \<Rightarrow> 'c list \<Rightarrow> 's generator" where
  "genexpr f xs = Generator (map f xs)"

fun exhaust :: "'s generator \<Rightarrow> 's \<Rightarrow> 's" where
  "exhaust (Generator fs) s = fold (\<lambda>f. f) fs s"

definition expr_stmt :: "'s generator \<Rightarrow> 's \<Rightarrow> 's" where
  "expr_stmt g s = s"

definition connect ::
  "(conn \<times> conn \<Rightarrow> engines \<Rightarrow> (error + 'a) \<times> engines) \<Rightarrow> engines \<Rightarrow> (error + 'a) \<times> engines" where
  "connect body s =
     (let conn = (SrcConn (length (src_conns s)), DstConn (length (dst_conns s)));
          s1 = s\<lparr>src_conns := src_conns s @ [Open], dst_conns := dst_conns s @ [Open]\<rparr>;
          (res, s2) = body conn s1;
          s3 = expr_stmt (genexpr close [fst conn, snd conn]) s2
      in (res, s3))"

section \<open>Session: slice planning\<close>

text \<open>
  \<^verbatim>\<open>
  def calculate_optimal_slices(self):
      with self.connect() as (src, dst):
          src_max = src.execute(
              select([func.max(self.src_table.c.updated)])).scalar()
          if self.starting_point >= src_max:
              return [], 0
          ...
          result = src.execute(resultsize_query).scalar()
          m = int(re.search('rows=([0-9]*)', result).groups()[0])
          slice_length = (self.max_updated
                          - self.starting_point) / m * 10_000_000
          return list(intervals(self.starting_point, self.max_updated, slice_length)), m
  \<close>
  The row estimate \<open>m\<close> that the code parses out of the planner's
  \<^verbatim>\<open>EXPLAIN\<close> output is an input of the model: it is a run of digits, so never
  negative, and the planner chooses it.  Comparing with \<^verbatim>\<open>None\<close> raises
  \<open>TypeError\<close>; \<^verbatim>\<open>/\<close> is Python 3's true division, which raises
  \<open>ZeroDivisionError\<close> on \<open>m = 0\<close> and otherwise gives a float.
\<close>

definition calculate_optimal_slices ::
  "table \<Rightarrow> int option \<Rightarrow> int \<Rightarrow> int \<Rightarrow> (error + (int \<times> int) list \<times> int) option" where
  "calculate_optimal_slices src starting_point max_updated m =
     (case (starting_point, func_max (map updated src)) of
        (Some sp, Some src_max) \<Rightarrow>
          if sp \<ge> src_max then Some (Inr ([], 0))
          else if m = 0 then Some (Inl ZeroDivisionError)
          else (case intervals sp max_updated
                       (real_of_int (max_updated - sp) / real_of_int m * 10000000) of
                  None \<Rightarrow> None
                | Some (Inl e) \<Rightarrow> Some (Inl e)
                | Some (Inr sl) \<Rightarrow> Some (Inr (sl, m)))
      | _ \<Rightarrow> Some (Inl TypeError))"

section \<open>Session: windows over a slice\<close>

text \<open>
  \<^verbatim>\<open>
  def interval_to_expr(start, end):
      if end:
          return and_(column >= start, column < end)
      else:
          return column >= start
  \<close>
  \<open>end\<close> is the next boundary value, or \<^verbatim>\<open>None\<close> after the last one; the
  test \<^verbatim>\<open>if end:\<close> is Python's truth test, false for \<^verbatim>\<open>None\<close> and for \<open>0\<close>.
\<close>

definition interval_to_expr :: "int \<Rightarrow> int option \<Rightarrow> expr" where
  "interval_to_expr start endv =
     (case endv of
        Some e \<Rightarrow> if e \<noteq> 0 then And (Ge start) (Lt e) else Ge start
      | None \<Rightarrow> Ge start)"

text \<open>
  \<^verbatim>\<open>
  while windows:
      start = windows.pop(0)[0]
      if windows:
          end = windows[0][0]
      else:
          end = None
      yield select_stmt.where(interval_to_expr(start, end)), rowcount
  \<close>
\<close>

fun yield_windows :: "select_stmt \<Rightarrow> int \<Rightarrow> int list \<Rightarrow> (select_stmt \<times> int) list" where
  "yield_windows select_stmt rowcount [] = []"
| "yield_windows select_stmt rowcount (start # windows) =
     (let endv = (case windows of [] \<Rightarrow> None | e # _ \<Rightarrow> Some e)
      in (select_stmt @ [interval_to_expr start endv], rowcount)
         # yield_windows select_stmt rowcount windows)"

text \<open>
  The boundary query of \<^verbatim>\<open>windowed_query\<close> numbers the rows that
  \<^verbatim>\<open>select_stmt\<close> selects with \<^verbatim>\<open>ROW_NUMBER() OVER (ORDER BY column)\<close>, from 1,
  and keeps the watermark of the rows with \<^verbatim>\<open>rownum % windowsize = 1\<close>; without
  that filter when \<^verbatim>\<open>windowsize > 1\<close> is false.  Then
  \<^verbatim>\<open>rowcount = len(windows) * windowsize\<close>.
\<close>

definition window_starts :: "table \<Rightarrow> select_stmt \<Rightarrow> int \<Rightarrow> int list" where
  "window_starts conn select_stmt windowsize =
     (let vs = map updated (execute conn select_stmt)
      in if windowsize > 1
         then map snd (filter (\<lambda>(rownum, v). int rownum mod windowsize = 1)
                         (zip [1..<Suc (length vs)] vs))
         else vs)"

definition windowed_query :: "table \<Rightarrow> select_stmt \<Rightarrow> int \<Rightarrow> (select_stmt \<times> int) list" where
  "windowed_query conn select_stmt windowsize =
     (let windows = window_starts conn select_stmt windowsize;
          rowcount = int (length windows) * windowsize
      in yield_windows select_stmt rowcount windows)"

text \<open>
  \<^verbatim>\<open>
  for window, len in self.windowed_query(conn, statement, column, chunksize):
      result = conn.execute(window)
      yield result.fetchall(), len
  \<close>
\<close>

definition chunkify :: "table \<Rightarrow> select_stmt \<Rightarrow> int \<Rightarrow> (row list \<times> int) list" where
  "chunkify conn statement chunksize =
     map (\<lambda>(window, len). (execute conn window, len)) (windowed_query conn statement chunksize)"

section \<open>Session: the merge loop\<close>

text \<open>
  The upsert \<^verbatim>\<open>insert(dst_table).on_conflict_do_update(constraint=primary_key,
  set_=update_cols)\<close>, where \<^verbatim>\<open>update_cols\<close> are the columns outside the primary
  key: a row whose key is already in the destination overwrites those columns
  of the row that has the key (\<open>on_conflict_do_update\<close>, with the incoming row
  as \<^verbatim>\<open>excluded\<close>), any other row is inserted.  \<open>dst_execute\<close> runs it for the
  rows of a chunk in their order.
\<close>

definition on_conflict_do_update :: "row \<Rightarrow> row \<Rightarrow> row" where
  "on_conflict_do_update excluded x =
     (if pk x = pk excluded
      then x\<lparr>updated := updated excluded, payload := payload excluded\<rparr>
      else x)"

definition upsert_row :: "row \<Rightarrow> table \<Rightarrow> table" where
  "upsert_row r dst =
     (if pk r \<in> set (map pk dst) then map (on_conflict_do_update r) dst else dst @ [r])"

definition dst_execute :: "table \<Rightarrow> row list \<Rightarrow> table" where
  "dst_execute dst chunk = fold upsert_row chunk dst"

text \<open>
  \<^verbatim>\<open>
  processed_rowcount = 0
  for slice in self.slices:
      with self.connect() as (src, dst):
          select_stmt = select([self.src_table]).where(
              and_(self.src_table.c.updated >= slice[0],
                   self.src_table.c.updated <= slice[1])
              ).order_by(asc(self.src_table.c.updated))
          ...
          for chunk, rowcount in self._chunkify(src, select_stmt, self.src_table.c.updated, self.chunksize):
              dst.execute(insert_stmt, [dict(zip(self.src_table.columns.keys(), r)) for r in chunk])
              processed_rowcount += len(chunk)
              yield min(processed_rowcount, rowcount), rowcount, self.src_table_size
  \<close>
  The state of the loops is the counter \<open>processed_rowcount\<close> and the
  destination table; the result is the list of the tuples yielded, with the
  final state.
\<close>

record session =
  src_table :: table
  dst_table :: table
  chunksize :: int
  max_updated :: int
  starting_point :: "int option"
  slices :: "(int \<times> int) list"
  src_table_size :: int

type_synonym progress = "int \<times> int \<times> int"

fun merge_chunk_loop ::
  "(row list \<times> int) list \<Rightarrow> int \<Rightarrow> int \<times> table \<Rightarrow> progress list \<times> int \<times> table" where
  "merge_chunk_loop [] table_size st = ([], st)"
| "merge_chunk_loop ((chunk, rowcount) # rest) table_size (processed_rowcount, dst) =
     (let dst' = dst_execute dst chunk;
          processed_rowcount' = processed_rowcount + int (length chunk);
          (ys, st) = merge_chunk_loop rest table_size (processed_rowcount', dst')
      in ((min processed_rowcount' rowcount, rowcount, table_size) # ys, st))"

definition slice_stmt :: "int \<times> int \<Rightarrow> select_stmt" where
  "slice_stmt slice = [And (Ge (fst slice)) (Le (snd slice))]"

fun merge_slice_loop ::
  "(int \<times> int) list \<Rightarrow> table \<Rightarrow> int \<Rightarrow> int \<Rightarrow> int \<times> table \<Rightarrow> progress list \<times> int \<times> table" where
  "merge_slice_loop [] src csize table_size st = ([], st)"
| "merge_slice_loop (slice # rest) src csize table_size st =
     (let (ys, st') = merge_chunk_loop (chunkify src (slice_stmt slice) csize) table_size st;
          (zs, st'') = merge_slice_loop rest src csize table_size st'
      in (ys @ zs, st''))"

definition merge_chunks :: "session \<Rightarrow> progress list \<times> table" where
  "merge_chunks self =
     (let (ys, st) = merge_slice_loop (slices self) (src_table self) (chunksize self)
                       (src_table_size self) (0, dst_table self)
      in (ys, snd st))"


section \<open>Vocabulary of the properties\<close>


text \<open>
  \<open>running_totals p ns\<close>: the values a counter that starts at \<open>p\<close> takes as the
  numbers \<open>ns\<close> are added to it one after the other.  \<open>all_chunks\<close>: the chunks
  of all slices of a session with their row count estimates, in the order the
  merge loop meets them.
\<close>

fun running_totals :: "int \<Rightarrow> int list \<Rightarrow> int list" where
  "running_totals p [] = []"
| "running_totals p (n # ns) = (p + n) # running_totals (p + n) ns"

definition all_chunks :: "session \<Rightarrow> (row list \<times> int) list" where
  "all_chunks self =
     concat (map (\<lambda>slice. chunkify (src_table self) (slice_stmt slice) (chunksize self))
               (slices self))"

text \<open>
  \<open>numbered_rows n\<close>: a table of \<open>n\<close> rows watermarked \<open>1..n\<close>, each row keyed
  by its watermark.
\<close>

definition numbered_rows :: "int \<Rightarrow> table" where
  "numbered_rows n = map (\<lambda>i. \<lparr>pk = i, updated = i, payload = ''''\<rparr>) [1..n]"

section \<open>Ranges that tile an interval\<close>








section \<open>intervals with a whole-number step\<close>




section \<open>The interval generator\<close>




section \<open>The slice planner\<close>






text \<open>
  Claim C5, as amended.  For every run in which the resolved watermark is
  greater than or equal to the greatest watermark of the source table
  (\<^verbatim>\<open>src_max\<close>, the \<^verbatim>\<open>MAX(updated)\<close> of the source), the planner returns
  an empty sequence of slices together with the total row count 0, whatever
  runStartTime and the planner estimate are.
\<close>

theorem calculate_optimal_slices_no_work:
  "func_max (map updated src) = Some src_max \<Longrightarrow> src_max \<le> w \<Longrightarrow>
     calculate_optimal_slices src (Some w) max_upd m = Some (Inr ([], 0))"
  by (simp add: calculate_optimal_slices_def)

text \<open>The theorem with watermark 30 and a source whose greatest watermark is 30.\<close>

theorem calculate_optimal_slices_no_work_witness:
  "func_max (map updated [\<lparr>pk = 1, updated = 30, payload = ''''\<rparr>]) = Some 30 \<and> (30::int) \<le> 30
   \<and> calculate_optimal_slices [\<lparr>pk = 1, updated = 30, payload = ''''\<rparr>] (Some 30) 1000 7
       = Some (Inr ([], 0))"
  using calculate_optimal_slices_no_work [of "[\<lparr>pk = 1, updated = 30, payload = ''''\<rparr>]" 30 30 1000 7]
  by simp

text \<open>
  Claim C5 as it is written compares the watermark with runStartTime.  The
  code does not: with watermark 100, runStartTime 50 and a source row
  watermarked 200 the guard \<^verbatim>\<open>starting_point >= src_max\<close> is false, the planner
  goes on, and \<^verbatim>\<open>intervals(100, 50, ...)\<close> raises \<open>ValueError\<close>.
\<close>

theorem calculate_optimal_slices_run_start_counterexample:
  "(50::int) \<le> 100
   \<and> calculate_optimal_slices [\<lparr>pk = 1, updated = 200, payload = ''''\<rparr>] (Some 100) 50 1
       = Some (Inl ValueError)"
  by (simp add: calculate_optimal_slices_def intervals_def)

text \<open>
  Claim C3 does not hold of the code.  With the estimate \<open>m = 0\<close> over the
  non-empty range from watermark 0 to runStartTime 100, the slice length
  \<^verbatim>\<open>(max_updated - starting_point) / m * 10_000_000\<close> divides by \<open>m\<close> with no
  test before it, and the planner fails with \<open>ZeroDivisionError\<close>; it returns no
  slice.
\<close>

theorem calculate_optimal_slices_zero_estimate:
  "calculate_optimal_slices [\<lparr>pk = 1, updated = 100, payload = ''''\<rparr>] (Some 0) 100 0
     = Some (Inl ZeroDivisionError)"
  by (simp add: calculate_optimal_slices_def)

section \<open>The watermark resolver\<close>

text \<open>
  Claim C2 does not hold of the code.  The destination holds one row, with
  watermark 0, so its \<^verbatim>\<open>MAX(updated)\<close> is the non-null value 0; the source
  holds watermarks 10 and 50.  The test \<^verbatim>\<open>if not min:\<close> takes 0 for an empty
  destination, and the resolver returns the source minimum 10, not 0.
\<close>

theorem get_starting_point_zero_watermark:
  "get_starting_point
     [\<lparr>pk = 1, updated = 10, payload = ''''\<rparr>, \<lparr>pk = 2, updated = 50, payload = ''''\<rparr>]
     [\<lparr>pk = 7, updated = 0, payload = ''''\<rparr>] = Some 10"
  by (simp add: get_starting_point_def py_not_def)

section \<open>The connection context manager\<close>

text \<open>
  Iterating the generator of the \<^verbatim>\<open>finally\<close> block would close both
  connections; the statement as written never iterates it.
\<close>

lemma exhaust_closes_connections:
  "exhaust (genexpr close [SrcConn 0, DstConn 0]) \<lparr>src_conns = [Open], dst_conns = [Open]\<rparr>
     = \<lparr>src_conns = [Closed], dst_conns = [Closed]\<rparr>"
  by (simp add: genexpr_def)

text \<open>
  Claim C4 does not hold of the code.  The \<^verbatim>\<open>finally\<close> block builds the
  generator \<^verbatim>\<open>(c.close() for c in conn)\<close> and never iterates it, so no
  \<^verbatim>\<open>close\<close> runs: after a body that returns, and after a body that raises,
  both connections that \<^verbatim>\<open>connect\<close> acquired are still open.
\<close>

theorem connect_leaves_connections_open:
  "connect (\<lambda>conn s. (Inr (), s)) \<lparr>src_conns = [], dst_conns = []\<rparr>
     = (Inr (), \<lparr>src_conns = [Open], dst_conns = [Open]\<rparr>)
   \<and> connect (\<lambda>conn s. (Inl TypeError :: error + unit, s)) \<lparr>src_conns = [], dst_conns = []\<rparr>
     = (Inl TypeError, \<lparr>src_conns = [Open], dst_conns = [Open]\<rparr>)
   \<and> is_open (SrcConn 0) \<lparr>src_conns = [Open], dst_conns = [Open]\<rparr>
   \<and> is_open (DstConn 0) \<lparr>src_conns = [Open], dst_conns = [Open]\<rparr>"
  by (simp add: connect_def expr_stmt_def)

section \<open>The upsert\<close>











section \<open>The progress tuples of the merge loop\<close>

text \<open>
  The two nested loops of \<^verbatim>\<open>merge_chunks\<close> as one pass over the chunks of
  all slices: the counter is a running total over all of them.
\<close>

lemma running_totals_append:
  "running_totals p (ms @ ns) = running_totals p ms @ running_totals (p + sum_list ms) ns"
  by (induction ms arbitrary: p) (simp_all add: add.assoc)

lemma length_running_totals: "length (running_totals p ns) = length ns"
  by (induction ns arbitrary: p) simp_all

lemma merge_chunk_loop_progress:
  "fst (merge_chunk_loop cs table_size (p, dst))
     = map2 (\<lambda>total (chunk, rowcount). (min total rowcount, rowcount, table_size))
         (running_totals p (map (\<lambda>(chunk, rowcount). int (length chunk)) cs)) cs"
  by (induction cs arbitrary: p dst) (auto simp: Let_def case_prod_beta)

lemma merge_chunk_loop_counter:
  "fst (snd (merge_chunk_loop cs table_size (p, dst)))
     = p + sum_list (map (\<lambda>(chunk, rowcount). int (length chunk)) cs)"
  by (induction cs arbitrary: p dst) (auto simp: Let_def case_prod_beta)

lemma merge_slice_loop_progress:
  "fst (merge_slice_loop sl src csize table_size (p, dst))
     = map2 (\<lambda>total (chunk, rowcount). (min total rowcount, rowcount, table_size))
         (running_totals p (map (\<lambda>(chunk, rowcount). int (length chunk))
            (concat (map (\<lambda>slice. chunkify src (slice_stmt slice) csize) sl))))
         (concat (map (\<lambda>slice. chunkify src (slice_stmt slice) csize) sl))"
proof (induction sl arbitrary: p dst)
  case Nil
  then show ?case by simp
next
  case (Cons slice sl)
  let ?cs = "chunkify src (slice_stmt slice) csize"
  let ?r = "merge_chunk_loop ?cs table_size (p, dst)"
  have "fst (merge_slice_loop (slice # sl) src csize table_size (p, dst))
          = fst ?r @ fst (merge_slice_loop sl src csize table_size (fst (snd ?r), snd (snd ?r)))"
    by (simp add: case_prod_beta)
  then show ?case
    by (simp add: merge_chunk_loop_progress merge_chunk_loop_counter Cons.IH
          running_totals_append length_running_totals)
qed

lemma merge_chunks_progress:
  "fst (merge_chunks self)
     = map2 (\<lambda>total (chunk, rowcount). (min total rowcount, rowcount, src_table_size self))
         (running_totals 0 (map (\<lambda>(chunk, rowcount). int (length chunk)) (all_chunks self)))
         (all_chunks self)"
  by (simp add: merge_chunks_def all_chunks_def case_prod_beta merge_slice_loop_progress)


text \<open>
  Claim C10.  Every progress tuple that \<^verbatim>\<open>merge_chunks\<close> yields has its first
  component at most its second: the processed-row count reported is
  \<^verbatim>\<open>min(processed_rowcount, rowcount)\<close>, so it never exceeds the row count
  estimate of the slice, although the counter itself runs on across slices.
\<close>

theorem merge_chunks_clamped:
  "(a, b, c) \<in> set (fst (merge_chunks self)) \<Longrightarrow> a \<le> b"
  by (auto simp: merge_chunks_progress dest!: set_zip_rightD)

text \<open>
  The theorem at the first tuple of a run over 8 rows in the two slices
  \<open>(1, 4)\<close> and \<open>(5, 8)\<close>, with chunks of 2 rows.
\<close>

theorem merge_chunks_clamped_witness:
  "(2, 4, 17500000) \<in> set (fst (merge_chunks
      \<lparr>src_table = numbered_rows 8, dst_table = [], chunksize = 2, max_updated = 8,
       starting_point = Some 1, slices = [(1, 4), (5, 8)], src_table_size = 17500000\<rparr>))
   \<and> (2::int) \<le> 4"
  using merge_chunks_clamped [of 2 4 17500000
          "\<lparr>src_table = numbered_rows 8, dst_table = [], chunksize = 2, max_updated = 8,
            starting_point = Some 1, slices = [(1, 4), (5, 8)], src_table_size = 17500000\<rparr>"]
  by code_simp

section \<open>The windowed cursor\<close>

text \<open>
  Claim C7 does not hold of the code.  A slice \<open>[0, 5]\<close> holds three rows, all
  watermarked 0, and the chunk size is 2.  The sampled boundaries are the
  watermarks of rows 1 and 3, both 0.  For the first window the next boundary
  is 0, which \<^verbatim>\<open>if end:\<close> takes for no boundary at all, so the predicate is
  the open-ended \<^verbatim>\<open>updated >= 0\<close> and not
  \<^verbatim>\<open>updated >= 0 AND updated < 0\<close>; the last window is \<^verbatim>\<open>updated >= 0\<close> too.
  Both windows fetch all three rows: the windows share rows and every row is
  covered twice.
\<close>

theorem windowed_query_zero_boundary:
  "windowed_query
       [\<lparr>pk = 1, updated = 0, payload = ''''\<rparr>, \<lparr>pk = 2, updated = 0, payload = ''''\<rparr>,
        \<lparr>pk = 3, updated = 0, payload = ''''\<rparr>] (slice_stmt (0, 5)) 2
     = [([And (Ge 0) (Le 5), Ge 0], 4), ([And (Ge 0) (Le 5), Ge 0], 4)]
   \<and> map (map pk \<circ> fst) (chunkify
       [\<lparr>pk = 1, updated = 0, payload = ''''\<rparr>, \<lparr>pk = 2, updated = 0, payload = ''''\<rparr>,
        \<lparr>pk = 3, updated = 0, payload = ''''\<rparr>] (slice_stmt (0, 5)) 2)
     = [[1, 2, 3], [1, 2, 3]]"
  by code_simp

section \<open>A run over a table of numbered rows\<close>



















section \<open>The progress records\<close>




end
